theory Spec2Isabelle
  imports Complex_Main
begin

section \<open>Errors and JSON values\<close>

text \<open>
  The exceptions the three scripts can end with, as values. Python floats that are only
  compared or divided once (F1 scores, losses, accuracies) are read as exact reals.
\<close>

datatype error =
    KeyboardInterrupt
  | ZeroDivisionError
  | FileNotFoundError
  | AssertionError
  | ValueError
  | AttributeError

datatype json =
    JInt int
  | JBool bool
  | JStr string
  | JArr "json list"
  | JObj "(string \<times> json) list"

section \<open>Reveal: \<open>Graph/models/reveal/trainer.py\<close>\<close>

subsection \<open>The training loop of \<open>train\<close>\<close>

text \<open>
  The local variables of \<open>train\<close> that survive an epoch, the parameters held by
  \<open>model\<close>, and the content of the file \<open>./<dataset_name>_best_f1.model\<close>
  (\<open>None\<close>: no such file). A value of type \<open>'m\<close> is one state dict.
\<close>

record 'm trainer =
  best_f1 :: real
  best_model :: "'m option"
  patience_counter :: int
  model :: 'm
  ckpt_file :: "'m option"

text \<open>Lines 30 to 32: the state before the first epoch, over whatever file is already there.\<close>

definition start :: "'m \<Rightarrow> 'm option \<Rightarrow> 'm trainer" where
  "start m0 d0 =
     \<lparr>best_f1 = 0, best_model = None, patience_counter = 0, model = m0, ckpt_file = d0\<rparr>"

text \<open>Lines 68 to 75: the comparison of the validation F1 with the best so far.\<close>

definition valid_step :: "real \<Rightarrow> 'm trainer \<Rightarrow> 'm trainer" where
  "valid_step vf1 st =
     (if vf1 > best_f1 st
      then st\<lparr>best_f1 := vf1, patience_counter := 0,
              best_model := Some (model st), ckpt_file := Some (model st)\<rparr>
      else st\<lparr>patience_counter := patience_counter st + 1\<rparr>)"

text \<open>Lines 90 to 93 and again 98 to 101: \<open>load_state_dict(best_model)\<close> unless it is None.\<close>

definition restore_best :: "'m trainer \<Rightarrow> 'm trainer" where
  "restore_best st = (case best_model st of None \<Rightarrow> st | Some b \<Rightarrow> st\<lparr>model := b\<rparr>)"

text \<open>
  What one pass of the \<open>for epoch_count in range(num_epochs)\<close> body meets:
  \<open>Epoch m f\<close>: the batch loop leaves the parameters \<open>m\<close>, and \<open>evaluate\<close>, if this
  epoch validates, returns the F1 \<open>f\<close>;
  \<open>KbdInt m\<close>: KeyboardInterrupt is raised in the batch loop or inside \<open>evaluate\<close>,
  when the parameters are \<open>m\<close>.
\<close>

datatype 'm epoch_event = Epoch 'm real | KbdInt 'm

datatype loop_exit = Exhausted | Patience_stop | Interrupted | Raised error

text \<open>
  Lines 35 to 94. The list holds one event per value of \<open>range(num_epochs)\<close>, the
  natural number is \<open>epoch_count\<close>. The result is how the loop was left, the
  \<open>epoch_count\<close> at that moment and the state. \<open>epoch_count % valid_every\<close> raises
  ZeroDivisionError when \<open>valid_every\<close> is 0, which the \<open>except KeyboardInterrupt\<close>
  clause does not catch.
\<close>

fun train_loop ::
  "int \<Rightarrow> int \<Rightarrow> nat \<Rightarrow> 'm epoch_event list \<Rightarrow> 'm trainer \<Rightarrow> loop_exit \<times> nat \<times> 'm trainer"
where
  "train_loop valid_every max_patience epoch_count [] st = (Exhausted, epoch_count, st)"
| "train_loop valid_every max_patience epoch_count (KbdInt m # evs) st =
     (Interrupted, epoch_count, st\<lparr>model := m\<rparr>)"
| "train_loop valid_every max_patience epoch_count (Epoch m vf1 # evs) st =
     (if valid_every = 0 then (Raised ZeroDivisionError, epoch_count, st\<lparr>model := m\<rparr>)
      else if int epoch_count mod valid_every = 0 then
        (let st' = valid_step vf1 (st\<lparr>model := m\<rparr>)
         in if patience_counter st' = max_patience
            then (Patience_stop, epoch_count, restore_best st')
            else train_loop valid_every max_patience (Suc epoch_count) evs st')
      else train_loop valid_every max_patience (Suc epoch_count) evs (st\<lparr>model := m\<rparr>))"

text \<open>Line 107: \<open>model.load_state_dict(torch.load(...))\<close>, with no check that the file exists.\<close>

definition load_best_f1 :: "'m trainer \<Rightarrow> error + 'm trainer" where
  "load_best_f1 st =
     (case ckpt_file st of None \<Rightarrow> Inl FileNotFoundError | Some c \<Rightarrow> Inr (st\<lparr>model := c\<rparr>))"

subsection \<open>The metric functions of the statistics library\<close>

text \<open>
  \<open>accuracy_score\<close>, \<open>precision_score\<close>, \<open>recall_score\<close> and \<open>f1_score\<close> are
  imported from scikit-learn by both trainers and called as \<open>f(expectations, predictions)\<close>
  with the defaults: binary averaging, positive label 1, and 0 returned where a
  denominator is 0. They are written here from the library's definitions over the
  confusion counts, on a list of (true label, predicted label) pairs. The ranking
  metrics (\<open>average_precision_score\<close>, \<open>roc_auc_score\<close>) are left out.
\<close>

definition count_pairs :: "int \<Rightarrow> int \<Rightarrow> (int \<times> int) list \<Rightarrow> nat" where
  "count_pairs y p ps = length (filter (\<lambda>c. c = (y, p)) ps)"

definition accuracy_score :: "(int \<times> int) list \<Rightarrow> real" where
  "accuracy_score ps = real (length (filter (\<lambda>(y, p). y = p) ps)) / real (length ps)"

definition precision_score :: "(int \<times> int) list \<Rightarrow> real" where
  "precision_score ps =
     (let tp = count_pairs 1 1 ps; fp = count_pairs 0 1 ps
      in if tp + fp = 0 then 0 else real tp / real (tp + fp))"

definition recall_score :: "(int \<times> int) list \<Rightarrow> real" where
  "recall_score ps =
     (let tp = count_pairs 1 1 ps; fn = count_pairs 1 0 ps
      in if tp + fn = 0 then 0 else real tp / real (tp + fn))"

definition f1_score :: "(int \<times> int) list \<Rightarrow> real" where
  "f1_score ps =
     (let tp = count_pairs 1 1 ps; fp = count_pairs 0 1 ps; fn = count_pairs 1 0 ps
      in if 2 * tp + fp + fn = 0 then 0 else real (2 * tp) / real (2 * tp + fp + fn))"

subsection \<open>\<open>evaluate\<close> and \<open>predict\<close>\<close>

text \<open>
  One example of a batch: features, target, id. The network (\<open>MetricLearningModel\<close>, not
  part of these files) is a parameter giving the two class probabilities of an example.
\<close>

type_synonym 'x example = "'x \<times> int \<times> int"

text \<open>\<open>np.argmax(probs, axis=-1)\<close> on a row of two columns: the first maximum.\<close>

definition argmax2 :: "real \<times> real \<Rightarrow> int" where
  "argmax2 pr = (if fst pr < snd pr then 1 else 0)"

record evaluation =
  e_acc :: real
  e_pr :: real
  e_rc :: real
  e_f1 :: real
  expectations :: "int list"
  all_probs :: "real list"
  all_ids :: "int list"
  predictions :: "int list"

text \<open>
  Lines 161 to 197. The batches are the ones \<open>iterator_function\<close> returns in
  \<open>_batch_count\<close> calls; each \<open>extend\<close> appends the batch's column.
\<close>

definition evaluate :: "('x \<Rightarrow> real \<times> real) \<Rightarrow> 'x example list list \<Rightarrow> evaluation" where
  "evaluate net batches =
     (let rows = concat batches;
          preds = map (\<lambda>(x, t, i). argmax2 (net x)) rows;
          tgts = map (\<lambda>(x, t, i). t) rows
      in \<lparr>e_acc = accuracy_score (zip tgts preds),
          e_pr = precision_score (zip tgts preds),
          e_rc = recall_score (zip tgts preds),
          e_f1 = f1_score (zip tgts preds),
          expectations = tgts,
          all_probs = map (\<lambda>(x, t, i). snd (net x)) rows,
          all_ids = map (\<lambda>(x, t, i). i) rows,
          predictions = preds\<rparr>)"

text \<open>
  Lines 142 to 158: \<open>predict\<close> over \<open>predict_proba\<close>. Each batch is unpacked as
  \<open>features, targets, _\<close> and only the features are used. \<open>np.argmax\<close> of an empty
  array raises ValueError.
\<close>

definition predict_proba :: "('x \<Rightarrow> real \<times> real) \<Rightarrow> 'x example list list \<Rightarrow> (real \<times> real) list" where
  "predict_proba net batches = map (\<lambda>(x, t, i). net x) (concat batches)"

definition predict :: "('x \<Rightarrow> real \<times> real) \<Rightarrow> 'x example list list \<Rightarrow> error + int list" where
  "predict net batches =
     (let probs = predict_proba net batches
      in if probs = [] then Inl ValueError else Inr (map argmax2 probs))"

subsection \<open>The test phase of \<open>train\<close>\<close>

text \<open>
  Lines 117 to 122: one \<open>{'id': id, 'pred': p}\<close> per pair of \<open>zip(all_ids, predications)\<close>,
  sorted by id with Python's stable sort, dumped as a JSON array. The pairs are sorted
  here before they are turned into objects.
\<close>

definition test_json :: "int list \<Rightarrow> int list \<Rightarrow> json" where
  "test_json ids preds =
     JArr (map (\<lambda>(i, p). JObj [(''id'', JInt i), (''pred'', JInt p)])
               (sort_key fst (zip ids preds)))"

text \<open>
  Lines 106 to 122: load the checkpoint file, then, if the test split has batches,
  evaluate on it and write \<open>test.json\<close> (\<open>None\<close>: not written).
\<close>

definition test_begin ::
  "('m \<Rightarrow> 'x \<Rightarrow> real \<times> real) \<Rightarrow> 'x example list list \<Rightarrow> 'm trainer
     \<Rightarrow> error + ('m trainer \<times> json option)"
where
  "test_begin net test_batches st =
     (case load_best_f1 st of
        Inl e \<Rightarrow> Inl e
      | Inr st' \<Rightarrow>
          Inr (st',
               if length test_batches \<noteq> 0
               then (let r = evaluate (net (model st')) test_batches
                     in Some (test_json (all_ids r) (predictions r)))
               else None))"

text \<open>
  Lines 34 to 101: the loop inside \<open>try\<close> and the \<open>except KeyboardInterrupt\<close> clause,
  which puts \<open>best_model\<close> back into the model when there is one. Any other exception
  leaves \<open>train\<close>. \<open>m0\<close> are the parameters at the call, \<open>d0\<close> the checkpoint file
  found at the call.
\<close>

definition training :: "int \<Rightarrow> int \<Rightarrow> 'm \<Rightarrow> 'm option \<Rightarrow> 'm epoch_event list \<Rightarrow> error + 'm trainer"
where
  "training valid_every max_patience m0 d0 events =
     (case train_loop valid_every max_patience 0 events (start m0 d0) of
        (Raised e, n, st) \<Rightarrow> Inl e
      | (Interrupted, n, st) \<Rightarrow> Inr (restore_best st)
      | (Exhausted, n, st) \<Rightarrow> Inr st
      | (Patience_stop, n, st) \<Rightarrow> Inr st)"

text \<open>\<open>train\<close> as a whole: the training above, then the test phase.\<close>

definition train ::
  "('m \<Rightarrow> 'x \<Rightarrow> real \<times> real) \<Rightarrow> 'x example list list \<Rightarrow> int \<Rightarrow> int \<Rightarrow> 'm \<Rightarrow> 'm option
     \<Rightarrow> 'm epoch_event list \<Rightarrow> error + ('m trainer \<times> json option)"
where
  "train net test_batches valid_every max_patience m0 d0 events =
     (case training valid_every max_patience m0 d0 events of
        Inl e \<Rightarrow> Inl e
      | Inr st \<Rightarrow> test_begin net test_batches st)"

section \<open>SVulD: \<open>sequence/SVulD/run.py\<close>\<close>

subsection \<open>\<open>evaluate\<close>, \<open>detect\<close> and the test export\<close>

text \<open>
  One example of \<open>TextDataset\<close>: input ids, contrast ids, label, index. The network
  (\<open>Model\<close>, not part of these files) is a parameter: \<open>logit1 input contrast\<close> is column 1
  of the logits of one example, \<open>lm_loss batch\<close> the mean loss of one batch.
\<close>

type_synonym 'x feature = "'x \<times> 'x \<times> int \<times> int"

record results =
  r_acc :: real
  r_recall :: real
  r_precision :: real
  r_f1 :: real

text \<open>A boolean prediction as the library reads it.\<close>

definition pred01 :: "bool \<Rightarrow> int" where
  "pred01 p = (if p then 1 else 0)"

text \<open>
  Lines 213 to 262. \<open>np.concatenate\<close> of an empty list raises ValueError. The result
  is \<open>results, eval_loss, indices, preds\<close>, with \<open>preds = logits[:, 1] > 0.5\<close> an array
  of booleans.
\<close>

definition svuld_evaluate ::
  "('x \<Rightarrow> 'x option \<Rightarrow> real) \<Rightarrow> ('x feature list \<Rightarrow> real) \<Rightarrow> 'x feature list list
     \<Rightarrow> error + (results \<times> real \<times> int list \<times> bool list)"
where
  "svuld_evaluate logit1 lm_loss batches =
     (if batches = [] then Inl ValueError
      else
        (let eval_loss = sum_list (map lm_loss batches);
             rows = concat batches;
             logits = map (\<lambda>(inp, con, lab, idx). logit1 inp (Some con)) rows;
             labels = map (\<lambda>(inp, con, lab, idx). lab) rows;
             indices = map (\<lambda>(inp, con, lab, idx). idx) rows;
             preds = map (\<lambda>l. l > 0.5) logits;
             ps = zip labels (map pred01 preds)
         in Inr (\<lparr>r_acc = accuracy_score ps, r_recall = recall_score ps,
                   r_precision = precision_score ps, r_f1 = f1_score ps\<rparr>,
                 eval_loss, indices, preds)))"

text \<open>
  Lines 326 to 364. The model is called on the contrast ids with no second input; the
  labels are read, and the accuracy over them is returned first. \<open>indices\<close> stays the
  list of the batches' index arrays.
\<close>

definition detect ::
  "('x \<Rightarrow> 'x option \<Rightarrow> real) \<Rightarrow> 'x feature list list \<Rightarrow> error + (real \<times> int list list \<times> bool list)"
where
  "detect logit1 batches =
     (if batches = [] then Inl ValueError
      else
        (let rows = concat batches;
             logits = map (\<lambda>(inp, con, lab, idx). logit1 con None) rows;
             labels = map (\<lambda>(inp, con, lab, idx). lab) rows;
             indices = map (map (\<lambda>(inp, con, lab, idx). idx)) batches;
             preds = map (\<lambda>l. l > 0.5) logits
         in Inr (accuracy_score (zip labels (map pred01 preds)), indices, preds)))"

text \<open>
  Lines 467 and 468 of \<open>main\<close>: the records of the data frame with the columns
  \<open>id\<close> and \<open>pred\<close>, in the order of \<open>indices\<close>, dumped as a JSON array; a boolean
  is dumped as \<open>true\<close> or \<open>false\<close>.
\<close>

definition svuld_test_json :: "int list \<Rightarrow> bool list \<Rightarrow> json" where
  "svuld_test_json indices preds =
     JArr (map (\<lambda>(i, p). JObj [(''id'', JInt i), (''pred'', JBool p)]) (zip indices preds))"

text \<open>Lines 453 to 468: the test branch of \<open>main\<close>, from the checkpoint \<open>model.bin\<close>.\<close>

definition svuld_test ::
  "('m \<Rightarrow> 'x \<Rightarrow> 'x option \<Rightarrow> real) \<Rightarrow> ('m \<Rightarrow> 'x feature list \<Rightarrow> real) \<Rightarrow> 'm option
     \<Rightarrow> 'x feature list list \<Rightarrow> error + json"
where
  "svuld_test logit1 lm_loss model_bin_file batches =
     (case model_bin_file of
        None \<Rightarrow> Inl FileNotFoundError
      | Some m \<Rightarrow>
          (case svuld_evaluate (logit1 m) (lm_loss m) batches of
             Inl e \<Rightarrow> Inl e
           | Inr (res, eval_loss, indices, preds) \<Rightarrow> Inr (svuld_test_json indices preds)))"

subsection \<open>The training loop of \<open>train\<close>\<close>

text \<open>
  \<open>best_f1\<close>, the parameters of \<open>model\<close>, the file \<open>checkpoint-best-f1/model.bin\<close> and
  the module-level \<open>early_stopping\<close> object. The class \<open>EarlyStopping\<close> is imported from
  \<open>utils.early_stopping\<close>, which is not part of these files: the loop takes its call and
  its \<open>early_stop\<close> attribute as parameters.
\<close>

record ('m, 'es) svuld_run =
  sv_best_f1 :: real
  sv_model :: 'm
  model_bin :: "'m option"
  early_stopping :: 'es


text \<open>
  Lines 198 to 205: saving the checkpoint. \<open>main\<close> wraps the model in \<open>DataParallel\<close>
  when \<open>n_gpu > 1\<close>; the wrapper has the attribute \<open>module\<close>, so line 203 then reads
  \<open>model.model\<close>, which the wrapper does not have: AttributeError, before \<open>torch.save\<close>.
\<close>

definition save_checkpoint :: "int \<Rightarrow> ('m, 'es) svuld_run \<Rightarrow> error + ('m, 'es) svuld_run" where
  "save_checkpoint n_gpu st =
     (if n_gpu > 1 then Inl AttributeError else Inr (st\<lparr>model_bin := Some (sv_model st)\<rparr>))"

text \<open>
  Lines 162 to 210. One triple per value of \<open>range(num_train_epochs)\<close>: the parameters
  after the epoch's batches, and \<open>results['f1']\<close> and \<open>eval_loss\<close> as \<open>evaluate\<close>
  returns them. The result says how the loop was left (\<open>Patience_stop\<close>: by the
  \<open>break\<close> on \<open>early_stop\<close>), with the value of \<open>idx\<close> and the state.
\<close>

fun svuld_train_loop ::
  "int \<Rightarrow> (real \<Rightarrow> 'es \<Rightarrow> 'es) \<Rightarrow> ('es \<Rightarrow> bool) \<Rightarrow> nat \<Rightarrow> ('m \<times> real \<times> real) list
     \<Rightarrow> ('m, 'es) svuld_run \<Rightarrow> loop_exit \<times> nat \<times> ('m, 'es) svuld_run"
where
  "svuld_train_loop n_gpu es_call early_stop idx [] st = (Exhausted, idx, st)"
| "svuld_train_loop n_gpu es_call early_stop idx ((m, f1, eval_loss) # evs) st =
     (let st1 = st\<lparr>sv_model := m\<rparr>
      in case (if f1 > sv_best_f1 st1 then save_checkpoint n_gpu (st1\<lparr>sv_best_f1 := f1\<rparr>)
               else Inr st1) of
           Inl e \<Rightarrow> (Raised e, idx, st1\<lparr>sv_best_f1 := f1\<rparr>)
         | Inr st2 \<Rightarrow>
             (let st3 = st2\<lparr>early_stopping := es_call eval_loss (early_stopping st2)\<rparr>
              in if early_stop (early_stopping st3) then (Patience_stop, idx, st3)
                 else svuld_train_loop n_gpu es_call early_stop (Suc idx) evs st3))"


text \<open>
  Modelled from the spec: the early-stopping policy on the validation loss
  (\<open>utils/early_stopping.py\<close> is missing). EarlyStoppingState is
  \<open>{best_score, patience_counter, max_patience}\<close>; on each validation cycle an improved
  metric (lower is better for loss) resets the patience to 0, otherwise the patience is
  incremented; the state is terminal when the patience equals \<open>max_patience\<close>.
\<close>

record early_stopping_state =
  es_best_score :: "real option"
  es_patience_counter :: nat
  es_max_patience :: nat


definition early_stop :: "early_stopping_state \<Rightarrow> bool" where
  "early_stop s \<longleftrightarrow> es_patience_counter s = es_max_patience s"

section \<open>Zero-shot fan-out: \<open>LLM/run_zero_shot.py\<close>\<close>

subsection \<open>Splitting the GPUs and starting the subprocesses\<close>



text \<open>\<open>str\<close> of an integer, and \<open>sep.join\<close>.\<close>

fun str_nat :: "nat \<Rightarrow> string" where
  "str_nat n =
     (if n < 10 then [''0123456789'' ! n]
      else str_nat (n div 10) @ [''0123456789'' ! (n mod 10)])"

definition str_int :: "int \<Rightarrow> string" where
  "str_int i = (if i < 0 then CHR ''-'' # str_nat (nat (- i)) else str_nat (nat i))"

fun join :: "string \<Rightarrow> string list \<Rightarrow> string" where
  "join sep [] = []"
| "join sep [x] = x"
| "join sep (x # y # ys) = x @ sep @ join sep (y # ys)"

text \<open>Lines 20 and 21: the command line of one subprocess.\<close>

definition command :: "int list \<Rightarrow> nat \<Rightarrow> int \<Rightarrow> string" where
  "command gpus split_idx split_cnt =
     ''python zero_shot.py --gpus='' @ [CHR 0x22] @ join '','' (map str_int gpus) @ [CHR 0x22]
       @ '' -split_idx='' @ str_nat split_idx
       @ '' -total_split_cnt='' @ str_int split_cnt"



subsection \<open>Merging the results\<close>

text \<open>
  The files of the result directory: \<open>prompt_<p>_result_split_<k>.json\<close> and
  \<open>prompt_<p>_result.json\<close>, each holding a JSON array (\<open>None\<close>: no such file).
\<close>

datatype path = Split_file nat nat | Merged_file nat

type_synonym files = "path \<Rightarrow> json list option"

text \<open>Lines 34 to 37: \<open>merge_result\<close> extended by each split's array, in the order of \<open>range(split_cnt)\<close>.\<close>

fun read_splits :: "files \<Rightarrow> nat \<Rightarrow> nat list \<Rightarrow> json list \<Rightarrow> error + json list" where
  "read_splits fs prompt_id [] merge_result = Inr merge_result"
| "read_splits fs prompt_id (split_idx # rest) merge_result =
     (case fs (Split_file prompt_id split_idx) of
        None \<Rightarrow> Inl FileNotFoundError
      | Some split_result \<Rightarrow> read_splits fs prompt_id rest (merge_result @ split_result))"

text \<open>
  Lines 29 to 39 over the prompt ids still to visit: \<open>break\<close> at the first prompt without
  a file for split 0. The result is the exception that ended the loop, if any, and the
  files as they are then.
\<close>

fun merge_prompts :: "nat \<Rightarrow> nat list \<Rightarrow> files \<Rightarrow> error option \<times> files" where
  "merge_prompts split_cnt [] fs = (None, fs)"
| "merge_prompts split_cnt (prompt_id # rest) fs =
     (if fs (Split_file prompt_id 0) = None then (None, fs)
      else
        (case read_splits fs prompt_id [0..<split_cnt] [] of
           Inl e \<Rightarrow> (Some e, fs)
         | Inr merge_result \<Rightarrow>
             merge_prompts split_cnt rest (fs(Merged_file prompt_id \<mapsto> merge_result))))"

definition merge :: "nat \<Rightarrow> files \<Rightarrow> error option \<times> files" where
  "merge split_cnt fs = merge_prompts split_cnt [0..<100] fs"


section \<open>Notions used to state the properties\<close>

text \<open>
  The validation cycles a run of the Reveal loop goes through, as (parameters, F1)
  pairs: the epochs of the events with \<open>epoch_count % valid_every == 0\<close>, up to an
  interrupt. \<open>cycles_run\<close> is the number of epochs whose body was run to its end.
\<close>

fun validated :: "int \<Rightarrow> nat \<Rightarrow> 'm epoch_event list \<Rightarrow> ('m \<times> real) list" where
  "validated ve k [] = []"
| "validated ve k (KbdInt m # evs) = []"
| "validated ve k (Epoch m f # evs) =
     (if int k mod ve = 0 then [(m, f)] else []) @ validated ve (Suc k) evs"

definition cycles_run :: "loop_exit \<Rightarrow> nat \<Rightarrow> nat" where
  "cycles_run ex n = (if ex = Patience_stop then Suc n else n)"




text \<open>A split with binary labels in which both classes are present.\<close>

definition both_classes :: "int list \<Rightarrow> bool" where
  "both_classes ys \<longleftrightarrow> 0 \<in> set ys \<and> 1 \<in> set ys \<and> (\<forall>y\<in>set ys. y = 0 \<or> y = 1)"

text \<open>
  Prompt \<open>q\<close> has all its split files: the one of split 0, which the merge loop tests
  for, and those of \<open>range(split_cnt)\<close>.
\<close>

definition complete :: "nat \<Rightarrow> files \<Rightarrow> nat \<Rightarrow> bool" where
  "complete split_cnt fs q \<longleftrightarrow> (\<forall>k\<in>set (0 # [0..<split_cnt]). fs (Split_file q k) \<noteq> None)"

text \<open>
  A network for runs on concrete inputs, its parameters and features both natural
  numbers: the positive class gets the feature as its score.
\<close>

definition example_net :: "nat \<Rightarrow> nat \<Rightarrow> real \<times> real" where
  "example_net m x = (1 / 2, real x)"

definition example_logit1 :: "nat \<Rightarrow> nat \<Rightarrow> nat option \<Rightarrow> real" where
  "example_logit1 m x c = real x"

definition example_lm_loss :: "nat \<Rightarrow> nat feature list \<Rightarrow> real" where
  "example_lm_loss m b = 0"

section \<open>Properties\<close>

lemma train_loop_index:
  "train_loop ve mp k evs st = (ex, n, st') \<Longrightarrow> k \<le> n"
proof (induction evs arbitrary: k st)
  case Nil
  then show ?case by simp
next
  case (Cons ev evs)
  show ?case
  proof (cases ev)
    case (KbdInt m)
    with Cons.prems show ?thesis by simp
  next
    case (Epoch m f)
    with Cons.prems Cons.IH [of "Suc k"] show ?thesis
      by (auto simp: Let_def split: if_splits dest: Suc_leD)
  qed
qed

subsection \<open>Keeping the best checkpoint\<close>






lemma restore_best_fields [simp]:
  "best_f1 (restore_best st) = best_f1 st" "ckpt_file (restore_best st) = ckpt_file st"
  "best_model (restore_best st) = best_model st" "patience_counter (restore_best st) = patience_counter st"
  by (simp_all add: restore_best_def split: option.split)

lemma take_diff_Cons:
  "Suc k \<le> N \<Longrightarrow> take (N - k) (x # xs) = x # take (N - Suc k) xs"
proof -
  assume "Suc k \<le> N"
  then have "N - k = Suc (N - Suc k)" by arith
  then show ?thesis by simp
qed





lemma svuld_train_loop_data_parallel:
  "1 < n_gpu \<Longrightarrow> sv_best_f1 st < f1 \<Longrightarrow>
     svuld_train_loop n_gpu c s idx ((m, f1, l) # evs) st
       = (Raised AttributeError, idx, st\<lparr>sv_model := m, sv_best_f1 := f1\<rparr>)"
  by (simp add: save_checkpoint_def)


subsection \<open>Which validation cycle the checkpoint belongs to\<close>




subsection \<open>The early-stopping policy of the Reveal loop\<close>

text \<open>
  C2. With \<open>valid_every = 1\<close> and \<open>max_patience = 3\<close>, over the validation scores
  1, 2, 3, 2, 2, 2 (and whatever epochs might follow) the loop is left by the patience
  \<open>break\<close> in the sixth cycle (\<open>epoch_count = 5\<close>), with the checkpoint file and the
  restored parameters those of cycle 3; after five cycles it has not stopped, the
  patience standing at 2. In general a validation cycle that improves on the best F1
  resets the patience counter to 0 and writes the checkpoint, any other cycle adds 1 to
  the counter and leaves the file alone, and the loop is left at a validation cycle
  exactly when the counter then equals \<open>max_patience\<close>.
\<close>

theorem early_stopping_policy:
  "(\<forall>rest d0.
      train_loop 1 3 0
        ([Epoch 1 1, Epoch 2 2, Epoch 3 3, Epoch 4 2, Epoch 5 2, Epoch 6 2] @ rest) (start (0::nat) d0)
      = (Patience_stop, 5,
         \<lparr>best_f1 = 3, best_model = Some 3, patience_counter = 3, model = 3, ckpt_file = Some 3\<rparr>)
      \<and> train_loop 1 3 0 [Epoch 1 1, Epoch 2 2, Epoch 3 3, Epoch 4 2, Epoch 5 2] (start (0::nat) d0)
      = (Exhausted, 5,
         \<lparr>best_f1 = 3, best_model = Some 3, patience_counter = 2, model = 5, ckpt_file = Some 3\<rparr>))
   \<and> (best_f1 st < f \<longrightarrow>
        patience_counter (valid_step f st) = 0 \<and> ckpt_file (valid_step f st) = Some (model st))
   \<and> (\<not> best_f1 st < f \<longrightarrow>
        patience_counter (valid_step f st) = patience_counter st + 1
        \<and> ckpt_file (valid_step f st) = ckpt_file st)
   \<and> (valid_every \<noteq> 0 \<and> int k mod valid_every = 0 \<longrightarrow>
        (train_loop valid_every max_patience k (Epoch m f # evs) st
           = (Patience_stop, k, restore_best (valid_step f (st\<lparr>model := m\<rparr>)))
         \<longleftrightarrow> patience_counter (valid_step f (st\<lparr>model := m\<rparr>)) = max_patience))"
proof (intro conjI allI impI)
  fix rest and d0 :: "nat option"
  show "train_loop 1 3 0
        ([Epoch 1 1, Epoch 2 2, Epoch 3 3, Epoch 4 2, Epoch 5 2, Epoch 6 2] @ rest) (start (0::nat) d0)
      = (Patience_stop, 5,
         \<lparr>best_f1 = 3, best_model = Some 3, patience_counter = 3, model = 3, ckpt_file = Some 3\<rparr>)"
    by (simp add: start_def valid_step_def restore_best_def)
  show "train_loop 1 3 0 [Epoch 1 1, Epoch 2 2, Epoch 3 3, Epoch 4 2, Epoch 5 2] (start (0::nat) d0)
      = (Exhausted, 5,
         \<lparr>best_f1 = 3, best_model = Some 3, patience_counter = 2, model = 5, ckpt_file = Some 3\<rparr>)"
    by (simp add: start_def valid_step_def restore_best_def)
next
  assume "best_f1 st < f"
  then show "patience_counter (valid_step f st) = 0" "ckpt_file (valid_step f st) = Some (model st)"
    by (simp_all add: valid_step_def)
next
  assume "\<not> best_f1 st < f"
  then show "patience_counter (valid_step f st) = patience_counter st + 1"
    "ckpt_file (valid_step f st) = ckpt_file st"
    by (simp_all add: valid_step_def)
next
  assume "valid_every \<noteq> 0 \<and> int k mod valid_every = 0"
  then show "train_loop valid_every max_patience k (Epoch m f # evs) st
           = (Patience_stop, k, restore_best (valid_step f (st\<lparr>model := m\<rparr>)))
         \<longleftrightarrow> patience_counter (valid_step f (st\<lparr>model := m\<rparr>)) = max_patience"
    using train_loop_index [of valid_every max_patience "Suc k" evs
        "valid_step f (st\<lparr>model := m\<rparr>)" Patience_stop k]
    by (auto simp: Let_def)
qed

theorem early_stopping_policy_witness:
  "patience_counter (valid_step 2 (start (0::nat) None)) = 0
   \<and> ckpt_file (valid_step 2 (start (0::nat) None)) = Some 0
   \<and> patience_counter (valid_step 0 (start (0::nat) None)) = 1
   \<and> ckpt_file (valid_step 0 (start (0::nat) None)) = None
   \<and> train_loop 1 1 0 [Epoch (1::nat) 0, Epoch 2 5] (start 0 None)
       = (Patience_stop, 0, restore_best (valid_step 0 (start 0 None\<lparr>model := 1\<rparr>)))
   \<and> fst (train_loop 1 3 0 [Epoch 1 1, Epoch 2 2, Epoch 3 3, Epoch 4 2, Epoch 5 2, Epoch 6 2]
             (start (0::nat) None)) = Patience_stop"
proof -
  have up: "best_f1 (start (0::nat) None) < 2" and down: "\<not> best_f1 (start (0::nat) None) < 0"
    by (simp_all add: start_def)
  have val: "(1::int) \<noteq> 0 \<and> int 0 mod 1 = 0" by simp
  have cnt: "patience_counter (valid_step 0 (start (0::nat) None\<lparr>model := 1\<rparr>)) = 1"
    by (simp add: valid_step_def start_def)
  note a = early_stopping_policy [of "start (0::nat) None" 2 1 0 1 1 "[Epoch 2 5]",
      THEN conjunct2, THEN conjunct1, THEN mp, OF up]
  note b = early_stopping_policy [of "start (0::nat) None" 0 1 0 1 1 "[Epoch 2 5]",
      THEN conjunct2, THEN conjunct2, THEN conjunct1, THEN mp, OF down]
  note c = early_stopping_policy [of "start (0::nat) None" 0 1 0 1 1 "[Epoch 2 5]",
      THEN conjunct2, THEN conjunct2, THEN conjunct2, THEN mp, OF val, THEN iffD2, OF cnt]
  note d = early_stopping_policy [of "start (0::nat) None" 0 1 0 1 1 "[Epoch 2 5]",
      THEN conjunct1, THEN spec, THEN spec, THEN conjunct1, of "[]" None]
  from a b c d show ?thesis by (simp add: start_def)
qed

subsection \<open>An interrupt during the Reveal loop\<close>






subsection \<open>Runs without any improvement\<close>

lemma valid_step_no_improvement:
  "f \<le> best_f1 st \<Longrightarrow> valid_step f st = st\<lparr>patience_counter := patience_counter st + 1\<rparr>"
  by (simp add: valid_step_def)

lemma train_loop_no_improvement:
  assumes "train_loop ve mp k evs st = (ex, n, st')"
    and "\<forall>c\<in>set (validated ve k (take (cycles_run ex n - k) evs)). snd c \<le> best_f1 st"
  shows "patience_counter st' =
           patience_counter st + int (length (validated ve k (take (cycles_run ex n - k) evs)))
         \<and> best_f1 st' = best_f1 st \<and> ckpt_file st' = ckpt_file st \<and> best_model st' = best_model st"
  using assms
proof (induction evs arbitrary: k st)
  case Nil
  then show ?case by auto
next
  case (Cons ev evs)
  show ?case
  proof (cases ev)
    case (KbdInt m)
    with Cons.prems show ?thesis by (auto simp: cycles_run_def)
  next
    case (Epoch m f)
    show ?thesis
    proof (cases "ve = 0")
      case True
      with Epoch Cons.prems show ?thesis by (auto simp: cycles_run_def)
    next
      case ve: False
      show ?thesis
      proof (cases "int k mod ve = 0")
        case val: True
        let ?st1 = "valid_step f (st\<lparr>model := m\<rparr>)"
        show ?thesis
        proof (cases "patience_counter ?st1 = mp")
          case True
          with Cons.prems(1) Epoch ve val have e: "ex = Patience_stop" "n = k" "st' = restore_best ?st1"
            by (auto simp: Let_def)
          with Cons.prems(2) Epoch val have "f \<le> best_f1 st" by (simp add: cycles_run_def)
          then have "?st1 = st\<lparr>model := m, patience_counter := patience_counter st + 1\<rparr>"
            by (simp add: valid_step_def)
          with e Epoch val show ?thesis by (simp add: cycles_run_def)
        next
          case False
          with Cons.prems(1) Epoch ve val
          have run: "train_loop ve mp (Suc k) evs ?st1 = (ex, n, st')"
            by (auto simp: Let_def)
          from train_loop_index [OF run] have "Suc k \<le> cycles_run ex n"
            by (simp add: cycles_run_def)
          then have tk: "take (cycles_run ex n - k) (ev # evs) = ev # take (cycles_run ex n - Suc k) evs"
            by (rule take_diff_Cons)
          from Cons.prems(2) have f: "f \<le> best_f1 st"
            and rest: "\<forall>c\<in>set (validated ve (Suc k) (take (cycles_run ex n - Suc k) evs)). snd c \<le> best_f1 st"
            unfolding tk using Epoch val by simp_all
          from f have st1: "?st1 = st\<lparr>model := m, patience_counter := patience_counter st + 1\<rparr>"
            by (simp add: valid_step_def)
          from rest st1 have "\<forall>c\<in>set (validated ve (Suc k) (take (cycles_run ex n - Suc k) evs)). snd c \<le> best_f1 ?st1"
            by simp
          from Cons.IH [OF run this] st1 show ?thesis unfolding tk using Epoch val by simp
        qed
      next
        case nval: False
        with Cons.prems(1) Epoch ve
        have run: "train_loop ve mp (Suc k) evs (st\<lparr>model := m\<rparr>) = (ex, n, st')"
          by (auto simp: Let_def)
        from train_loop_index [OF run] have "Suc k \<le> cycles_run ex n"
          by (simp add: cycles_run_def)
        then have tk: "take (cycles_run ex n - k) (ev # evs) = ev # take (cycles_run ex n - Suc k) evs"
          by (rule take_diff_Cons)
        from Cons.prems(2) have
          "\<forall>c\<in>set (validated ve (Suc k) (take (cycles_run ex n - Suc k) evs)). snd c \<le> best_f1 (st\<lparr>model := m\<rparr>)"
          unfolding tk using Epoch nval by simp
        from Cons.IH [OF run this] show ?thesis unfolding tk using Epoch nval by simp
      qed
    qed
  qed
qed

lemma train_loop_Raised:
  "train_loop ve mp k evs st = (Raised e, n, st') \<Longrightarrow> ve = 0"
proof (induction evs arbitrary: k st)
  case Nil
  then show ?case by simp
next
  case (Cons ev evs)
  then show ?case
    by (cases ev) (auto simp: Let_def split: if_splits)
qed

text \<open>
  C9 (as amended). The best F1 starts at 0 and only a strictly greater F1 counts as an
  improvement. In a run (with \<open>valid_every\<close> not 0) in which every validation cycle
  yields the F1 0, the checkpoint file is never written, the patience counter is the
  number of validation cycles run, and the load after training fails with a missing
  file if there was no such file before the run; a file left there before the run is
  still there and is loaded.
\<close>

theorem zero_f1_run_writes_no_checkpoint:
  "train_loop valid_every max_patience 0 events (start m0 d0) = (ex, n, st)
   \<and> valid_every \<noteq> 0
   \<and> (\<forall>c\<in>set (validated valid_every 0 (take (cycles_run ex n) events)). snd c = 0) \<longrightarrow>
     ckpt_file st = d0
     \<and> patience_counter st = int (length (validated valid_every 0 (take (cycles_run ex n) events)))
     \<and> (d0 = None \<longrightarrow>
          train net test_batches valid_every max_patience m0 d0 events = Inl FileNotFoundError)
     \<and> (\<forall>c. d0 = Some c \<longrightarrow>
          (\<exists>r. train net test_batches valid_every max_patience m0 d0 events = Inr r
               \<and> model (fst r) = c))"
proof (intro impI, elim conjE)
  assume run: "train_loop valid_every max_patience 0 events (start m0 d0) = (ex, n, st)"
    and ve: "valid_every \<noteq> 0"
    and zero: "\<forall>c\<in>set (validated valid_every 0 (take (cycles_run ex n) events)). snd c = 0"
  from zero have
    "\<forall>c\<in>set (validated valid_every 0 (take (cycles_run ex n - 0) events)). snd c \<le> best_f1 (start m0 d0)"
    by (simp add: start_def)
  from train_loop_no_improvement [OF run this]
  have pc: "patience_counter st = int (length (validated valid_every 0 (take (cycles_run ex n) events)))"
    and ck: "ckpt_file st = d0"
    by (simp_all add: start_def)
  from run ve train_loop_Raised have nr: "\<And>e. ex \<noteq> Raised e" by blast
  have tr: "train net test_batches valid_every max_patience m0 d0 events
              = test_begin net test_batches (if ex = Interrupted then restore_best st else st)"
    using run nr by (cases ex) (auto simp: train_def training_def)
  have fail: "d0 = None \<longrightarrow>
      train net test_batches valid_every max_patience m0 d0 events = Inl FileNotFoundError"
    unfolding tr using ck by (simp add: test_begin_def load_best_f1_def)
  have stale: "\<forall>c. d0 = Some c \<longrightarrow>
          (\<exists>r. train net test_batches valid_every max_patience m0 d0 events = Inr r
               \<and> model (fst r) = c)"
    unfolding tr using ck by (simp add: test_begin_def load_best_f1_def)
  from ck pc fail stale
  show "ckpt_file st = d0
     \<and> patience_counter st = int (length (validated valid_every 0 (take (cycles_run ex n) events)))
     \<and> (d0 = None \<longrightarrow>
          train net test_batches valid_every max_patience m0 d0 events = Inl FileNotFoundError)
     \<and> (\<forall>c. d0 = Some c \<longrightarrow>
          (\<exists>r. train net test_batches valid_every max_patience m0 d0 events = Inr r
               \<and> model (fst r) = c))"
    by blast
qed

theorem zero_f1_run_writes_no_checkpoint_witness:
  "train (\<lambda>m (x::nat). (0::real, 0::real)) [] 1 2 (0::nat) None [Epoch 1 0, Epoch 2 0, Epoch 3 0]
     = Inl FileNotFoundError"
proof -
  have r: "train_loop 1 2 0 [Epoch (1::nat) 0, Epoch 2 0, Epoch 3 0] (start 0 None)
      = (Patience_stop, 1,
         \<lparr>best_f1 = 0, best_model = None, patience_counter = 2, model = 2, ckpt_file = None\<rparr>)"
    by (simp add: start_def valid_step_def restore_best_def)
  have z: "\<forall>c\<in>set (validated 1 0 (take (cycles_run Patience_stop 1) [Epoch (1::nat) 0, Epoch 2 0, Epoch 3 0])).
             snd c = 0"
    by (simp add: cycles_run_def)
  have ve: "(1::int) \<noteq> 0" by simp
  from zero_f1_run_writes_no_checkpoint [THEN mp, OF conjI [OF r conjI [OF ve z]],
      THEN conjunct2, THEN conjunct2, THEN conjunct1, THEN mp, OF refl]
  show ?thesis .
qed

text \<open>
  With a checkpoint file left by an earlier run, a run whose validation F1 is 0
  throughout does not fail at the load: it ends normally on the old parameters.
\<close>

theorem zero_f1_run_loads_stale_checkpoint:
  "train example_net [] 1 2 0 (Some 7) [Epoch 1 0, Epoch 2 0, Epoch 3 0]
     = Inr (\<lparr>best_f1 = 0, best_model = None, patience_counter = 2, model = 7, ckpt_file = Some 7\<rparr>,
            None)"
  by (simp add: train_def training_def start_def valid_step_def restore_best_def test_begin_def
      load_best_f1_def)

subsection \<open>The metrics\<close>

lemma accuracy_score_bounds: "0 \<le> accuracy_score ps \<and> accuracy_score ps \<le> 1"
proof -
  have "length (filter (\<lambda>(y, p). y = p) ps) \<le> length ps" by (rule length_filter_le)
  then have "real (length (filter (\<lambda>(y, p). y = p) ps)) \<le> real (length ps)" by simp
  then show ?thesis
    unfolding accuracy_score_def by (simp add: divide_le_eq_1)
qed

lemma ratio_bounds:
  fixes a b :: nat
  shows "0 \<le> real a / real (a + b) \<and> real a / real (a + b) \<le> 1"
proof (cases "a + b = 0")
  case True
  then show ?thesis by simp
next
  case False
  then have "0 < a + b" by simp
  then have pos: "0 < real (a + b)" by (simp only: of_nat_0_less_iff)
  have "a \<le> a + b" by simp
  then have le: "real a \<le> real (a + b)" by (simp only: of_nat_le_iff)
  from pos le show ?thesis by (simp only: divide_le_eq_1_pos) simp
qed

lemma precision_score_bounds: "0 \<le> precision_score ps \<and> precision_score ps \<le> 1"
  unfolding precision_score_def Let_def using ratio_bounds by simp

lemma recall_score_bounds: "0 \<le> recall_score ps \<and> recall_score ps \<le> 1"
  unfolding recall_score_def Let_def using ratio_bounds by simp

lemma f1_score_bounds: "0 \<le> f1_score ps \<and> f1_score ps \<le> 1"
proof -
  have "real (2 * a) / real (2 * a + b + c) = real (2 * a) / real (2 * a + (b + c))" for a b c :: nat
    by (simp add: add.assoc)
  then show ?thesis
    unfolding f1_score_def Let_def using ratio_bounds by simp
qed

lemma harmonic_mean_counts:
  fixes tp fp fn :: nat
  assumes "0 < tp"
  shows "real (2 * tp) / real (2 * tp + fp + fn)
         = 2 * (real tp / real (tp + fp)) * (real tp / real (tp + fn))
             / (real tp / real (tp + fp) + real tp / real (tp + fn))"
proof -
  define a b c where "a = real tp" and "b = real fp" and "c = real fn"
  have a: "0 < a" and b: "0 \<le> b" and c: "0 \<le> c"
    using assms by (simp_all add: a_def b_def c_def)
  have ab: "a + b \<noteq> 0" and ac: "a + c \<noteq> 0" and s: "2 * a + b + c \<noteq> 0"
    using a b c by linarith+
  have sum: "a / (a + b) + a / (a + c) = a * (2 * a + b + c) / ((a + b) * (a + c))"
    using ab ac by (simp add: field_simps)
  have prod: "2 * (a / (a + b)) * (a / (a + c)) = 2 * a * a / ((a + b) * (a + c))"
    by simp
  have "2 * (a / (a + b)) * (a / (a + c)) / (a / (a + b) + a / (a + c))
        = (2 * a * a / ((a + b) * (a + c))) / (a * (2 * a + b + c) / ((a + b) * (a + c)))"
    unfolding sum prod ..
  also have "\<dots> = (2 * a * a) / (a * (2 * a + b + c))"
    using ab ac by simp
  also have "\<dots> = 2 * a / (2 * a + b + c)"
    using a by simp
  finally show ?thesis
    by (simp add: a_def b_def c_def)
qed

lemma f1_score_harmonic:
  assumes "0 < precision_score ps + recall_score ps"
  shows "f1_score ps = 2 * precision_score ps * recall_score ps / (precision_score ps + recall_score ps)"
proof -
  have tp: "0 < count_pairs 1 1 ps"
  proof (rule ccontr)
    assume "\<not> 0 < count_pairs 1 1 ps"
    then have "count_pairs 1 1 ps = 0" by simp
    then have "precision_score ps = 0" "recall_score ps = 0"
      by (simp_all add: precision_score_def recall_score_def Let_def)
    with assms show False by simp
  qed
  from harmonic_mean_counts [OF tp, of "count_pairs 0 1 ps" "count_pairs 1 0 ps"] tp
  show ?thesis
    by (simp add: f1_score_def precision_score_def recall_score_def Let_def)
qed

text \<open>
  C8. For an evaluation over a split whose labels are 0 and 1 with both present, by
  the Reveal \<open>evaluate\<close> as by the SVulD \<open>evaluate\<close>, the accuracy, precision, recall
  and F1 returned lie between 0 and 1, and when precision + recall is positive the F1 is
  the harmonic mean \<open>2 * precision * recall / (precision + recall)\<close>. The metric
  functions are the library's, read over exact arithmetic.
\<close>

theorem metrics_bounded_and_f1_harmonic:
  "(both_classes (expectations (evaluate net batches)) \<longrightarrow>
      (let r = evaluate net batches
       in 0 \<le> e_acc r \<and> e_acc r \<le> 1 \<and> 0 \<le> e_pr r \<and> e_pr r \<le> 1
          \<and> 0 \<le> e_rc r \<and> e_rc r \<le> 1 \<and> 0 \<le> e_f1 r \<and> e_f1 r \<le> 1
          \<and> (0 < e_pr r + e_rc r \<longrightarrow> e_f1 r = 2 * e_pr r * e_rc r / (e_pr r + e_rc r))))
   \<and> (svuld_evaluate logit1 lm_loss sbatches = Inr (res, eval_loss, indices, preds)
       \<and> both_classes (map (\<lambda>(inp, con, lab, idx). lab) (concat sbatches)) \<longrightarrow>
         0 \<le> r_acc res \<and> r_acc res \<le> 1 \<and> 0 \<le> r_precision res \<and> r_precision res \<le> 1
         \<and> 0 \<le> r_recall res \<and> r_recall res \<le> 1 \<and> 0 \<le> r_f1 res \<and> r_f1 res \<le> 1
         \<and> (0 < r_precision res + r_recall res \<longrightarrow>
              r_f1 res = 2 * r_precision res * r_recall res / (r_precision res + r_recall res)))"
proof (rule conjI)
  show "both_classes (expectations (evaluate net batches)) \<longrightarrow>
      (let r = evaluate net batches
       in 0 \<le> e_acc r \<and> e_acc r \<le> 1 \<and> 0 \<le> e_pr r \<and> e_pr r \<le> 1
          \<and> 0 \<le> e_rc r \<and> e_rc r \<le> 1 \<and> 0 \<le> e_f1 r \<and> e_f1 r \<le> 1
          \<and> (0 < e_pr r + e_rc r \<longrightarrow> e_f1 r = 2 * e_pr r * e_rc r / (e_pr r + e_rc r)))"
    using accuracy_score_bounds precision_score_bounds recall_score_bounds f1_score_bounds
      f1_score_harmonic
    by (simp add: evaluate_def Let_def)
next
  show "svuld_evaluate logit1 lm_loss sbatches = Inr (res, eval_loss, indices, preds)
       \<and> both_classes (map (\<lambda>(inp, con, lab, idx). lab) (concat sbatches)) \<longrightarrow>
         0 \<le> r_acc res \<and> r_acc res \<le> 1 \<and> 0 \<le> r_precision res \<and> r_precision res \<le> 1
         \<and> 0 \<le> r_recall res \<and> r_recall res \<le> 1 \<and> 0 \<le> r_f1 res \<and> r_f1 res \<le> 1
         \<and> (0 < r_precision res + r_recall res \<longrightarrow>
              r_f1 res = 2 * r_precision res * r_recall res / (r_precision res + r_recall res))"
  proof (rule impI)
  assume "svuld_evaluate logit1 lm_loss sbatches = Inr (res, eval_loss, indices, preds)
       \<and> both_classes (map (\<lambda>(inp, con, lab, idx). lab) (concat sbatches))"
  then have "\<exists>ps. res = \<lparr>r_acc = accuracy_score ps, r_recall = recall_score ps,
                   r_precision = precision_score ps, r_f1 = f1_score ps\<rparr>"
    by (auto simp: svuld_evaluate_def Let_def split: if_splits)
  then obtain ps where res: "res = \<lparr>r_acc = accuracy_score ps, r_recall = recall_score ps,
                   r_precision = precision_score ps, r_f1 = f1_score ps\<rparr>" ..
  show "0 \<le> r_acc res \<and> r_acc res \<le> 1 \<and> 0 \<le> r_precision res \<and> r_precision res \<le> 1
         \<and> 0 \<le> r_recall res \<and> r_recall res \<le> 1 \<and> 0 \<le> r_f1 res \<and> r_f1 res \<le> 1
         \<and> (0 < r_precision res + r_recall res \<longrightarrow>
              r_f1 res = 2 * r_precision res * r_recall res / (r_precision res + r_recall res))"
    unfolding res
    using accuracy_score_bounds [of ps] precision_score_bounds [of ps] recall_score_bounds [of ps]
      f1_score_bounds [of ps] f1_score_harmonic [of ps]
    by simp
  qed
qed


theorem metrics_bounded_and_f1_harmonic_witness:
  "e_f1 (evaluate (\<lambda>x::nat. (0.5::real, real x)) [[(1, 1, 10), (0, 0, 11)], [(1, 0, 12)]]) = 2 / 3
   \<and> r_f1 (fst (projr (svuld_evaluate (\<lambda>(x::nat) c. real x) (\<lambda>b. 1)
                 [[(1, 5, 1, 10), (0, 5, 0, 11)], [(1, 5, 0, 12)]]))) = 2 / 3"
proof -
  let ?net = "\<lambda>x::nat. (0.5::real, real x)"
  let ?bs = "[[(1::nat, 1::int, 10::int), (0, 0, 11)], [(1, 0, 12)]]"
  let ?logit = "\<lambda>(x::nat) (c::nat option). real x"
  let ?loss = "\<lambda>b::nat feature list. 1::real"
  let ?sbs = "[[(1::nat, 5::nat, 1::int, 10::int), (0, 5, 0, 11)], [(1, 5, 0, 12)]]"
  have pr: "e_pr (evaluate ?net ?bs) = 1 / 2" and rc: "e_rc (evaluate ?net ?bs) = 1"
    by (simp_all add: evaluate_def Let_def argmax2_def precision_score_def recall_score_def
        count_pairs_def)
  have bc: "both_classes (expectations (evaluate ?net ?bs))"
    by (simp add: evaluate_def Let_def both_classes_def)
  have pos: "0 < e_pr (evaluate ?net ?bs) + e_rc (evaluate ?net ?bs)"
    unfolding pr rc by simp
  from metrics_bounded_and_f1_harmonic [THEN conjunct1, THEN mp, OF bc]
  have "0 < e_pr (evaluate ?net ?bs) + e_rc (evaluate ?net ?bs) \<longrightarrow>
        e_f1 (evaluate ?net ?bs)
          = 2 * e_pr (evaluate ?net ?bs) * e_rc (evaluate ?net ?bs)
              / (e_pr (evaluate ?net ?bs) + e_rc (evaluate ?net ?bs))"
    unfolding Let_def by blast
  from this [THEN mp, OF pos] have a: "e_f1 (evaluate ?net ?bs) = 2 / 3"
    unfolding pr rc by simp
  define res where "res = \<lparr>r_acc = 2 / 3, r_recall = 1, r_precision = 1 / 2, r_f1 = 2 / (3::real)\<rparr>"
  have ev: "svuld_evaluate ?logit ?loss ?sbs = Inr (res, 2, [10, 11, 12], [True, False, True])"
    by (simp add: svuld_evaluate_def Let_def pred01_def accuracy_score_def precision_score_def
        recall_score_def f1_score_def count_pairs_def res_def)
  have sbc: "both_classes (map (\<lambda>(inp, con, lab, idx). lab) (concat ?sbs))"
    by (simp add: both_classes_def)
  have spos: "0 < r_precision res + r_recall res" by (simp add: res_def)
  from metrics_bounded_and_f1_harmonic [THEN conjunct2, THEN mp, OF conjI [OF ev sbc]]
  have "0 < r_precision res + r_recall res \<longrightarrow>
        r_f1 res = 2 * r_precision res * r_recall res / (r_precision res + r_recall res)"
    by blast
  from this [THEN mp, OF spos] have "r_f1 res = 2 / 3" by (simp add: res_def)
  with ev a show ?thesis by simp
qed

subsection \<open>The test prediction files\<close>

lemma test_json_sorted_by_id:
  "\<exists>xs. test_json ids preds = JArr (map (\<lambda>(i, p). JObj [(''id'', JInt i), (''pred'', JInt p)]) xs)
        \<and> sorted (map fst xs) \<and> set xs = set (zip ids preds) \<and> length xs = length (zip ids preds)"
  unfolding test_json_def
  by (rule exI [of _ "sort_key fst (zip ids preds)"]) simp

lemma evaluate_predictions_binary:
  "p \<in> set (predictions (evaluate net batches)) \<Longrightarrow> p = 0 \<or> p = 1"
  by (auto simp: evaluate_def Let_def argmax2_def)

text \<open>
  C3 at a failing input. A test file of two examples with the indices 2 and 1, in
  that order: the SVulD export lists id 2 before id 1, with booleans for \<open>pred\<close>,
  where the Reveal export of the same ids is sorted and holds integers.
\<close>

theorem svuld_test_json_in_dataset_order:
  "svuld_test example_logit1 example_lm_loss (Some 0) [[(3, 3, 1, 2), (0, 0, 0, 1)]]
     = Inr (JArr [JObj [(''id'', JInt 2), (''pred'', JBool True)],
                  JObj [(''id'', JInt 1), (''pred'', JBool False)]])
   \<and> test_json [2, 1] [1, 0]
     = JArr [JObj [(''id'', JInt 1), (''pred'', JInt 0)],
             JObj [(''id'', JInt 2), (''pred'', JInt 1)]]"
  by (simp add: svuld_test_def svuld_evaluate_def svuld_test_json_def test_json_def Let_def
      example_logit1_def)

subsection \<open>Prediction without metrics\<close>

lemma concat_map_fst: "concat (map (map f) xss) = map f (concat xss)"
  by (induction xss) simp_all

lemma predict_proba_features:
  "predict_proba net batches = map net (concat (map (map fst) batches))"
  by (simp add: predict_proba_def concat_map_fst case_prod_unfold comp_def)

text \<open>
  C4 (as amended). The Reveal \<open>predict\<close> uses only the features of the batches (the
  targets and ids that come with them are ignored) and returns only the predicted
  classes, one per example, without ids. The SVulD \<open>detect\<close> reads the label of every
  example: it returns the accuracy of the predictions against the labels, then the index
  arrays of the batches and the boolean predictions.
\<close>

theorem predict_ignores_labels_detect_scores_them:
  "(map (map fst) batches = map (map fst) batches' \<longrightarrow> predict net batches = predict net batches')
   \<and> (\<forall>ps. predict net batches = Inr ps \<longrightarrow> length ps = length (concat batches))
   \<and> (detect logit1 sbatches = Inr (acc, indices, preds) \<longrightarrow>
        preds = map (\<lambda>(inp, con, lab, idx). logit1 con None > 0.5) (concat sbatches)
        \<and> indices = map (map (\<lambda>(inp, con, lab, idx). idx)) sbatches
        \<and> acc = accuracy_score (zip (map (\<lambda>(inp, con, lab, idx). lab) (concat sbatches))
                                     (map pred01 preds)))"
proof (intro conjI)
  show "map (map fst) batches = map (map fst) batches' \<longrightarrow> predict net batches = predict net batches'"
    by (simp add: predict_def predict_proba_features)
  show "\<forall>ps. predict net batches = Inr ps \<longrightarrow> length ps = length (concat batches)"
    by (auto simp: predict_def predict_proba_def Let_def split: if_splits)
  show "detect logit1 sbatches = Inr (acc, indices, preds) \<longrightarrow>
        preds = map (\<lambda>(inp, con, lab, idx). logit1 con None > 0.5) (concat sbatches)
        \<and> indices = map (map (\<lambda>(inp, con, lab, idx). idx)) sbatches
        \<and> acc = accuracy_score (zip (map (\<lambda>(inp, con, lab, idx). lab) (concat sbatches))
                                     (map pred01 preds))"
    by (auto simp: detect_def Let_def case_prod_unfold comp_def split: if_splits)
qed

theorem predict_ignores_labels_detect_scores_them_witness:
  "predict (\<lambda>x::nat. (0.5::real, real x)) [[(1, 1, 10), (0, 0, 11)]] = Inr [1, 0]
   \<and> predict (\<lambda>x::nat. (0.5::real, real x)) [[(1, 0, 20), (0, 1, 21)]] = Inr [1, 0]
   \<and> fst (projr (detect (\<lambda>(x::nat) c. real x) [[(0, 1, 1, 7), (0, 0, 1, 8)]])) = 1 / 2"
proof -
  let ?net = "\<lambda>x::nat. (0.5::real, real x)"
  have f: "map (map fst) [[(1::nat, 1::int, 10::int), (0, 0, 11)]]
         = map (map fst) [[(1::nat, 0::int, 20::int), (0, 1, 21)]]"
    by simp
  have p: "predict ?net [[(1, 1, 10), (0, 0, 11)]] = Inr [1, 0]"
    by (simp add: predict_def predict_proba_def argmax2_def)
  note inst = predict_ignores_labels_detect_scores_them
    [of "[[(1::nat, 1::int, 10::int), (0, 0, 11)]]" "[[(1::nat, 0::int, 20::int), (0, 1, 21)]]" ?net
        "\<lambda>(x::nat) c. real x" "[[(0, 1, 1, 7), (0, 0, 1, 8)]]" "1 / 2" "[[7, 8]]" "[True, False]"]
  from inst [THEN conjunct1, THEN mp, OF f] p
  have q: "predict ?net [[(1, 0, 20), (0, 1, 21)]] = Inr [1, 0]" by simp
  have d: "detect (\<lambda>(x::nat) c. real x) [[(0, 1, 1, 7), (0, 0, 1, 8)]]
             = Inr (1 / 2, [[7, 8]], [True, False])"
    by (simp add: detect_def Let_def accuracy_score_def pred01_def)
  from inst [THEN conjunct2, THEN conjunct2, THEN mp, OF d] d p q
  show ?thesis by simp
qed

text \<open>
  \<open>detect\<close> returns a metric computed from the labels: on the same example with the
  label 1 and with the label 0 the predictions are the same and the first component is
  1 and 0.
\<close>

theorem detect_returns_accuracy_from_labels:
  "detect (example_logit1 0) [[(0, 1, 1, 7)]] = Inr (1, [[7]], [True])
   \<and> detect (example_logit1 0) [[(0, 1, 0, 7)]] = Inr (0, [[7]], [True])"
  by (simp add: detect_def Let_def accuracy_score_def pred01_def example_logit1_def)

subsection \<open>Splitting the GPU list\<close>









lemma command_example:
  "command [0, 1] 0 2
     = ''python zero_shot.py --gpus='' @ [CHR 0x22] @ ''0,1'' @ [CHR 0x22]
         @ '' -split_idx=0 -total_split_cnt=2''"
  by (simp add: command_def str_int_def)

subsection \<open>The merge step\<close>

lemma read_splits_all:
  "\<forall>k\<in>set ks. fs (Split_file p k) \<noteq> None \<Longrightarrow>
     read_splits fs p ks acc = Inr (acc @ concat (map (\<lambda>k. the (fs (Split_file p k))) ks))"
  by (induction ks arbitrary: acc) auto


lemma read_splits_merged_update [simp]:
  "read_splits (fs(Merged_file q \<mapsto> v)) p ks acc = read_splits fs p ks acc"
  by (induction ks arbitrary: acc) (auto split: option.splits)

lemma complete_merged_update [simp]:
  "complete sc (fs(Merged_file q \<mapsto> v)) p = complete sc fs p"
  by (simp add: complete_def)

lemma merge_prompts_split_files:
  "snd (merge_prompts sc ps fs) (Split_file q k) = fs (Split_file q k)"
  by (induction ps arbitrary: fs) (auto split: sum.splits)

lemma merge_prompts_untouched:
  "p \<notin> set ps \<Longrightarrow> snd (merge_prompts sc ps fs) (Merged_file p) = fs (Merged_file p)"
  by (induction ps arbitrary: fs) (auto split: sum.splits)

lemma merge_prompts_step_complete:
  assumes "complete sc fs p"
  shows "merge_prompts sc (p # ps) fs
         = merge_prompts sc ps
             (fs(Merged_file p \<mapsto> concat (map (\<lambda>k. the (fs (Split_file p k))) [0..<sc])))"
proof -
  from assms have z: "fs (Split_file p 0) \<noteq> None" and a: "\<forall>k\<in>set [0..<sc]. fs (Split_file p k) \<noteq> None"
    by (simp_all add: complete_def)
  from read_splits_all [OF a, of "[]"] z show ?thesis by auto
qed

lemma merge_prompts_complete_prefix:
  assumes "\<forall>q\<in>set qs. complete sc fs q"
  shows "\<exists>fs'. merge_prompts sc (qs @ ps) fs = merge_prompts sc ps fs'
               \<and> (\<forall>q k. fs' (Split_file q k) = fs (Split_file q k))
               \<and> (\<forall>q. q \<notin> set qs \<longrightarrow> fs' (Merged_file q) = fs (Merged_file q))
               \<and> (\<forall>q\<in>set qs. fs' (Merged_file q)
                     = Some (concat (map (\<lambda>k. the (fs (Split_file q k))) [0..<sc])))"
  using assms
proof (induction qs arbitrary: fs)
  case Nil
  show ?case by (intro exI [of _ fs]) simp
next
  case (Cons q qs)
  let ?fs1 = "fs(Merged_file q \<mapsto> concat (map (\<lambda>k. the (fs (Split_file q k))) [0..<sc]))"
  from Cons.prems have c: "complete sc fs q" and r: "\<forall>q\<in>set qs. complete sc ?fs1 q"
    by simp_all
  from Cons.IH [OF r] obtain fs' where
    "merge_prompts sc (qs @ ps) ?fs1 = merge_prompts sc ps fs'"
    "\<forall>q k. fs' (Split_file q k) = ?fs1 (Split_file q k)"
    "\<forall>p. p \<notin> set qs \<longrightarrow> fs' (Merged_file p) = ?fs1 (Merged_file p)"
    "\<forall>p\<in>set qs. fs' (Merged_file p)
       = Some (concat (map (\<lambda>k. the (?fs1 (Split_file p k))) [0..<sc]))"
    by blast
  with merge_prompts_step_complete [OF c, of "qs @ ps"] show ?case
    by (intro exI [of _ fs']) auto
qed

lemma upt_split_at: "p < n \<Longrightarrow> [0..<n] = [0..<p] @ p # [Suc p..<n]"
  using upt_add_eq_append [of 0 p "n - p"] by (simp add: upt_conv_Cons)

lemma merge_complete_prompt:
  assumes p: "p < 100" and c: "\<forall>q\<le>p. complete sc fs q"
  shows "snd (merge sc fs) (Merged_file p)
         = Some (concat (map (\<lambda>k. the (fs (Split_file p k))) [0..<sc]))"
proof -
  from c have "\<forall>q\<in>set [0..<p]. complete sc fs q" by simp
  from merge_prompts_complete_prefix [OF this, of "p # [Suc p..<100]"] obtain fs' where
    m: "merge_prompts sc ([0..<p] @ p # [Suc p..<100]) fs = merge_prompts sc (p # [Suc p..<100]) fs'"
    and s: "\<forall>q k. fs' (Split_file q k) = fs (Split_file q k)"
    by blast
  from c s have c': "complete sc fs' p" by (simp add: complete_def)
  have "snd (merge sc fs) (Merged_file p)
        = snd (merge_prompts sc (p # [Suc p..<100]) fs') (Merged_file p)"
    unfolding merge_def upt_split_at [OF p] m ..
  also have "\<dots> = Some (concat (map (\<lambda>k. the (fs' (Split_file p k))) [0..<sc]))"
    unfolding merge_prompts_step_complete [OF c']
    by (subst merge_prompts_untouched) simp_all
  finally show ?thesis using s by simp
qed

lemma merge_first_incomplete:
  assumes p: "p < 100" and c: "\<forall>q<p. complete sc fs q"
  shows "\<exists>fs'. merge sc fs = merge_prompts sc (p # [Suc p..<100]) fs'
               \<and> (\<forall>q k. fs' (Split_file q k) = fs (Split_file q k))
               \<and> (\<forall>q\<ge>p. fs' (Merged_file q) = fs (Merged_file q))
               \<and> (\<forall>q<p. fs' (Merged_file q)
                     = Some (concat (map (\<lambda>k. the (fs (Split_file q k))) [0..<sc])))"
proof -
  from c have "\<forall>q\<in>set [0..<p]. complete sc fs q" by simp
  from merge_prompts_complete_prefix [OF this, of "p # [Suc p..<100]"] obtain fs' where
    "merge_prompts sc ([0..<p] @ p # [Suc p..<100]) fs = merge_prompts sc (p # [Suc p..<100]) fs'"
    "\<forall>q k. fs' (Split_file q k) = fs (Split_file q k)"
    "\<forall>q. q \<notin> set [0..<p] \<longrightarrow> fs' (Merged_file q) = fs (Merged_file q)"
    "\<forall>q\<in>set [0..<p]. fs' (Merged_file q)
       = Some (concat (map (\<lambda>k. the (fs (Split_file q k))) [0..<sc]))"
    by blast
  then show ?thesis
    unfolding merge_def upt_split_at [OF p] by (intro exI [of _ fs']) auto
qed

lemma merge_stops_silently:
  assumes p: "p < 100" and c: "\<forall>q<p. complete sc fs q" and z: "fs (Split_file p 0) = None"
  shows "fst (merge sc fs) = None
         \<and> (\<forall>q\<ge>p. snd (merge sc fs) (Merged_file q) = fs (Merged_file q))
         \<and> (\<forall>q<p. snd (merge sc fs) (Merged_file q)
               = Some (concat (map (\<lambda>k. the (fs (Split_file q k))) [0..<sc])))"
proof -
  from merge_first_incomplete [OF p c] obtain fs' where
    m: "merge sc fs = merge_prompts sc (p # [Suc p..<100]) fs'"
    and s: "\<forall>q k. fs' (Split_file q k) = fs (Split_file q k)"
    and u: "\<forall>q\<ge>p. fs' (Merged_file q) = fs (Merged_file q)"
    and w: "\<forall>q<p. fs' (Merged_file q)
              = Some (concat (map (\<lambda>k. the (fs (Split_file q k))) [0..<sc]))"
    by blast
  from z s have "merge_prompts sc (p # [Suc p..<100]) fs' = (None, fs')" by simp
  with m u w show ?thesis by simp
qed


text \<open>
  C6 (as amended). For every prompt id \<open>p\<close> below 100 such that each prompt id from 0
  to \<open>p\<close> has its split-0 file and all its \<open>split_cnt\<close> split files, the merge step
  leaves a merged file for \<open>p\<close> that is the concatenation of its per-split arrays in
  ascending split index. In particular, from \<open>prompt_0_result_split_0.json = [{"a": 1}]\<close>
  and \<open>prompt_0_result_split_1.json = [{"b": 2}]\<close> with \<open>split_cnt = 2\<close> the merged file
  of prompt 0 is \<open>[{"a": 1}, {"b": 2}]\<close>.
\<close>

theorem merge_concatenates_splits:
  "(p < 100 \<and> (\<forall>q\<le>p. complete split_cnt fs q) \<longrightarrow>
      snd (merge split_cnt fs) (Merged_file p)
        = Some (concat (map (\<lambda>k. the (fs (Split_file p k))) [0..<split_cnt])))
   \<and> snd (merge 2 (Map.empty(Split_file 0 0 \<mapsto> [JObj [(''a'', JInt 1)]],
                              Split_file 0 1 \<mapsto> [JObj [(''b'', JInt 2)]])))
         (Merged_file 0)
       = Some [JObj [(''a'', JInt 1)], JObj [(''b'', JInt 2)]]"
proof (rule conjI)
  show "p < 100 \<and> (\<forall>q\<le>p. complete split_cnt fs q) \<longrightarrow>
      snd (merge split_cnt fs) (Merged_file p)
        = Some (concat (map (\<lambda>k. the (fs (Split_file p k))) [0..<split_cnt]))"
    using merge_complete_prompt by blast
next
  let ?fs = "Map.empty(Split_file 0 0 \<mapsto> [JObj [(''a'', JInt 1)]],
                        Split_file 0 1 \<mapsto> [JObj [(''b'', JInt 2)]])"
  have "\<forall>q\<le>0. complete 2 ?fs q"
    by (simp add: complete_def numeral_2_eq_2)
  from merge_complete_prompt [OF _ this] show "snd (merge 2 ?fs) (Merged_file 0)
       = Some [JObj [(''a'', JInt 1)], JObj [(''b'', JInt 2)]]"
    by (simp add: numeral_2_eq_2)
qed

theorem merge_concatenates_splits_witness:
  "snd (merge 2 (Map.empty(Split_file 0 0 \<mapsto> [JInt 1, JInt 2], Split_file 0 1 \<mapsto> [JInt 3],
                            Split_file 1 0 \<mapsto> [JInt 4], Split_file 1 1 \<mapsto> [])))
         (Merged_file 1)
       = Some [JInt 4]"
proof -
  let ?fs = "Map.empty(Split_file 0 0 \<mapsto> [JInt 1, JInt 2], Split_file 0 1 \<mapsto> [JInt 3],
                        Split_file 1 0 \<mapsto> [JInt 4], Split_file 1 1 \<mapsto> [])"
  have h: "(1::nat) < 100 \<and> (\<forall>q\<le>1. complete 2 ?fs q)"
    by (simp add: complete_def numeral_2_eq_2 le_Suc_eq)
  from merge_concatenates_splits [THEN conjunct1, THEN mp, OF h]
  show ?thesis by (simp add: numeral_2_eq_2)
qed

text \<open>
  A prompt whose split-0 file exists need not get a merged file: with the file of
  split 1 missing the loop ends in an error at that prompt, and a prompt that follows a
  prompt without a split-0 file is never reached.
\<close>

theorem merge_skips_prompt_with_split_0:
  "map_of [(Split_file 0 0, [JObj [(''a'', JInt 1)]])] (Split_file 0 0) \<noteq> None
   \<and> merge 2 (map_of [(Split_file 0 0, [JObj [(''a'', JInt 1)]])])
       = (Some FileNotFoundError, map_of [(Split_file 0 0, [JObj [(''a'', JInt 1)]])])
   \<and> map_of [(Split_file 0 0, [JObj [(''a'', JInt 1)]])] (Merged_file 0) = None
   \<and> map_of [(Split_file 1 0, [JObj [(''a'', JInt 1)]]), (Split_file 1 1, [JObj [(''b'', JInt 2)]])]
         (Split_file 1 0) \<noteq> None
   \<and> snd (merge 2 (map_of [(Split_file 1 0, [JObj [(''a'', JInt 1)]]),
                             (Split_file 1 1, [JObj [(''b'', JInt 2)]])]))
         (Merged_file 1) = None"
proof -
  let ?fa = "map_of [(Split_file 0 0, [JObj [(''a'', JInt 1)]])]"
  let ?fb = "map_of [(Split_file 1 0, [JObj [(''a'', JInt 1)]]), (Split_file 1 1, [JObj [(''b'', JInt 2)]])]"
  have "[0..<100] = 0 # [Suc 0..<100]" by (simp add: upt_conv_Cons)
  then have "merge 2 ?fa = (Some FileNotFoundError, ?fa)"
    by (simp add: merge_def numeral_2_eq_2)
  moreover have "snd (merge 2 ?fb) (Merged_file 1) = ?fb (Merged_file 1)"
    using merge_stops_silently [of 0 2 ?fb] by simp
  ultimately show ?thesis by simp
qed





end
